theory Spec2Isabelle
  imports Complex_Main
begin

section \<open>Data model\<close>

text \<open>
  The bouncing-image scripts keep two index-aligned arrays: \<open>images\<close> (the DOM elements)
  and \<open>velocities\<close> (one \<open>{dx, dy, paused}\<close> object per element). A JavaScript number is
  modelled as a real: arithmetic is exact, so rounding, infinities and the sign of zero are
  abstracted. The one place where the scripts can meet \<open>NaN\<close> is
  \<open>parseFloat(img.style.left)\<close> on a style that is unset or not a length; that result
  is a \<open>real option\<close>, with \<open>None\<close> for \<open>NaN\<close>.

  What the script owns of an element is its inline \<open>left\<close>/\<open>top\<close> style. What
  the browser reports when an element is measured (\<open>getBoundingClientRect()\<close>,
  \<open>offsetWidth\<close>, \<open>offsetHeight\<close>) is an input of every pass: a \<open>layout\<close> gives the
  measurement of the element at each index at the moment of the pass.
\<close>

record viewport =
  innerWidth :: real
  innerHeight :: real

record box =
  rect_left :: real
  rect_top :: real
  rect_width :: real
  rect_height :: real
  offsetWidth :: real
  offsetHeight :: real

type_synonym layout = "nat \<Rightarrow> box"

record style =
  style_left :: "real option"
  style_top :: "real option"

record velocity =
  dx :: real
  dy :: real
  paused :: bool

text \<open>
  An entry of \<open>velocities\<close> is \<open>None\<close> while the slot is still a hole
  (\<open>new Array(images.length)\<close> before initialisation); \<open>forEach\<close> skips holes and
  \<open>animate\<close> tests \<open>!velocity\<close>.
\<close>

record state =
  images :: "style list"
  velocities :: "velocity option list"

datatype error = TypeError

section \<open>JavaScript operators used by the scripts\<close>

text \<open>\<open>a || b\<close> on numbers: \<open>0\<close> and \<open>NaN\<close> are falsy, every other number is truthy.\<close>

definition or_num :: "real \<Rightarrow> real \<Rightarrow> real" where
  "or_num a b = (if a \<noteq> 0 then a else b)"

definition or_parsed :: "real option \<Rightarrow> real \<Rightarrow> real" where
  "or_parsed a b = (case a of None \<Rightarrow> b | Some v \<Rightarrow> if v \<noteq> 0 then v else b)"

text \<open>\<open>velocities[index]\<close>: \<open>undefined\<close> for a hole and for an index out of range.\<close>

definition lookup :: "velocity option list \<Rightarrow> nat \<Rightarrow> velocity option" where
  "lookup vs index = (if index < length vs then vs ! index else None)"

section \<open>BoundsClamp\<close>

text \<open>\<open>function clamp(n, min, max) { return Math.max(min, Math.min(max, n)); }\<close>\<close>

definition clamp :: "real \<Rightarrow> real \<Rightarrow> real \<Rightarrow> real" where
  "clamp n lo hi = max lo (min hi n)"

text \<open>
  The body of the \<open>forEach\<close> callback of \<open>clampAllPositionsToViewport\<close>, for one element
  with measurement \<open>b\<close>. The four values it reads are named first.
\<close>

definition clampWidth :: "box \<Rightarrow> real" where
  "clampWidth b = or_num (rect_width b) (offsetWidth b)"

definition clampHeight :: "box \<Rightarrow> real" where
  "clampHeight b = or_num (rect_height b) (offsetHeight b)"

definition currentLeft :: "box \<Rightarrow> style \<Rightarrow> real" where
  "currentLeft b img = or_num (or_parsed (style_left img) (rect_left b)) 0"

definition currentTop :: "box \<Rightarrow> style \<Rightarrow> real" where
  "currentTop b img = or_num (or_parsed (style_top img) (rect_top b)) 0"

definition clampImage :: "viewport \<Rightarrow> box \<Rightarrow> style \<Rightarrow> style" where
  "clampImage vp b img =
     (let w = clampWidth b;
          h = clampHeight b;
          left = currentLeft b img;
          top = currentTop b img;
          maxLeft = max 0 (innerWidth vp - w);
          maxTop = max 0 (innerHeight vp - h)
      in img\<lparr>style_left := Some (clamp left 0 maxLeft),
              style_top := Some (clamp top 0 maxTop)\<rparr>)"

definition clampAllPositionsToViewport :: "viewport \<Rightarrow> layout \<Rightarrow> state \<Rightarrow> state" where
  "clampAllPositionsToViewport vp lay st =
     st\<lparr>images := map (\<lambda>(index, img). clampImage vp (lay index) img)
                       (enumerate 0 (images st))\<rparr>"

section \<open>MotionEngine\<close>

subsection \<open>The clamping variant\<close>

text \<open>
  One axis of the boundary response: the \<open>if (left <= minLeft) ... else if (left >= maxLeft)\<close>
  chain, returning the position to write back and the velocity component.
\<close>

definition bounce :: "real \<Rightarrow> real \<Rightarrow> real \<Rightarrow> real \<Rightarrow> real \<times> real" where
  "bounce pos d lo hi =
     (if pos \<le> lo then (lo, d * -1)
      else if pos \<ge> hi then (hi, d * -1)
      else (pos, d))"

definition animateImage :: "viewport \<Rightarrow> box \<Rightarrow> style \<Rightarrow> velocity option \<Rightarrow> style \<times> velocity option" where
  "animateImage vp rect img velocity =
     (case velocity of
        None \<Rightarrow> (img, velocity)
      | Some v \<Rightarrow>
          if paused v then (img, velocity)
          else
            (let w = rect_width rect;
                 h = rect_height rect;
                 left = currentLeft rect img + dx v;
                 top = currentTop rect img + dy v;
                 minLeft = 0;
                 minTop = 0;
                 maxLeft = max 0 (innerWidth vp - w);
                 maxTop = max 0 (innerHeight vp - h);
                 (left', dx') = bounce left (dx v) minLeft maxLeft;
                 (top', dy') = bounce top (dy v) minTop maxTop
             in (img\<lparr>style_left := Some left', style_top := Some top'\<rparr>,
                 Some (v\<lparr>dx := dx', dy := dy'\<rparr>))))"

text \<open>
  \<open>images.forEach((img, index) => ...)\<close>: the callback at \<open>index\<close> reads and writes only
  \<open>img\<close> and \<open>velocities[index]\<close>, so the pass is a map over the indices. Entries of
  \<open>velocities\<close> beyond the last image are not visited.
\<close>

definition animate :: "viewport \<Rightarrow> layout \<Rightarrow> state \<Rightarrow> state" where
  "animate vp lay st =
     \<lparr>images = map (\<lambda>(index, img). fst (animateImage vp (lay index) img (lookup (velocities st) index)))
                    (enumerate 0 (images st)),
      velocities = map (\<lambda>(index, velocity).
                      if index < length (images st)
                      then snd (animateImage vp (lay index) (images st ! index) velocity)
                      else velocity)
                    (enumerate 0 (velocities st))\<rparr>"

subsection \<open>The original variant\<close>

text \<open>
  The loop of \<open>script.js\<close>, kept as it is in the flash-avoiding script: the advanced position
  is written back as computed and only the sign of the velocity is flipped. With an unparsable
  style \<open>left\<close> is \<open>NaN\<close>: both comparisons are false and the assignment of \<open>NaNpx\<close> is
  not a length, so the style keeps its value.
\<close>

definition reflect :: "real option \<Rightarrow> real \<Rightarrow> real \<Rightarrow> real \<Rightarrow> real option \<times> real" where
  "reflect parsed d extent limit =
     (case parsed of
        None \<Rightarrow> (None, d)
      | Some p \<Rightarrow>
          (let pos = p + d
           in (Some pos, if pos \<le> 0 \<or> pos + extent \<ge> limit then d * -1 else d)))"

definition animateImage_original :: "viewport \<Rightarrow> box \<Rightarrow> style \<Rightarrow> velocity option \<Rightarrow> style \<times> velocity option" where
  "animateImage_original vp rect img velocity =
     (case velocity of
        None \<Rightarrow> (img, velocity)
      | Some v \<Rightarrow>
          if paused v then (img, velocity)
          else
            (let (left, dx') = reflect (style_left img) (dx v) (rect_width rect) (innerWidth vp);
                 (top, dy') = reflect (style_top img) (dy v) (rect_height rect) (innerHeight vp)
             in (img\<lparr>style_left := left, style_top := top\<rparr>,
                 Some (v\<lparr>dx := dx', dy := dy'\<rparr>))))"

definition animate_original :: "viewport \<Rightarrow> layout \<Rightarrow> state \<Rightarrow> state" where
  "animate_original vp lay st =
     \<lparr>images = map (\<lambda>(index, img).
                      fst (animateImage_original vp (lay index) img (lookup (velocities st) index)))
                    (enumerate 0 (images st)),
      velocities = map (\<lambda>(index, velocity).
                      if index < length (images st)
                      then snd (animateImage_original vp (lay index) (images st ! index) velocity)
                      else velocity)
                    (enumerate 0 (velocities st))\<rparr>"

section \<open>Pause protocol\<close>

text \<open>\<open>velocities.forEach((v, i) => { v.paused = (i === index); })\<close>\<close>

definition mouseenter :: "nat \<Rightarrow> state \<Rightarrow> state" where
  "mouseenter index st =
     st\<lparr>velocities := map (\<lambda>(i, vo). map_option (\<lambda>v. v\<lparr>paused := (i = index)\<rparr>) vo)
                           (enumerate 0 (velocities st))\<rparr>"

definition touchstart :: "nat \<Rightarrow> state \<Rightarrow> state" where
  "touchstart index st =
     st\<lparr>velocities := map (\<lambda>(i, vo). map_option (\<lambda>v. v\<lparr>paused := (i = index)\<rparr>) vo)
                           (enumerate 0 (velocities st))\<rparr>"

text \<open>
  \<open>velocities[index].paused = false\<close>: a \<open>TypeError\<close> when the slot is \<open>undefined\<close>
  (the handler is registered only after the slot is filled).
\<close>

definition mouseleave :: "nat \<Rightarrow> state \<Rightarrow> error + state" where
  "mouseleave index st =
     (case lookup (velocities st) index of
        None \<Rightarrow> Inl TypeError
      | Some v \<Rightarrow> Inr (st\<lparr>velocities := (velocities st)[index := Some (v\<lparr>paused := False\<rparr>)]\<rparr>))"

section \<open>PlacementInitializer\<close>

text \<open>
  \<open>Math.random()\<close> is an input: \<open>rnd n\<close> is the value of the \<open>n\<close>-th call made during
  the initialisation. The callback for one element makes six calls, in this order: \<open>x\<close>,
  \<open>y\<close>, the sign and the magnitude of \<open>dx\<close>, the sign and the magnitude of \<open>dy\<close>.
\<close>

definition baseSpeed :: real where
  "baseSpeed = 0.6"

definition initImage :: "viewport \<Rightarrow> box \<Rightarrow> (nat \<Rightarrow> real) \<Rightarrow> nat \<Rightarrow> style \<Rightarrow> style" where
  "initImage vp b rnd index img =
     (let w = or_num (or_num (offsetWidth b) (rect_width b)) 50;
          h = or_num (or_num (offsetHeight b) (rect_height b)) 50;
          maxLeft = max 1 (innerWidth vp - w - 1);
          maxTop = max 1 (innerHeight vp - h - 1);
          x = rnd (6 * index) * maxLeft;
          y = rnd (6 * index + 1) * maxTop
      in img\<lparr>style_left := Some x, style_top := Some y\<rparr>)"

definition initVelocity :: "(nat \<Rightarrow> real) \<Rightarrow> nat \<Rightarrow> velocity" where
  "initVelocity rnd index =
     \<lparr>dx = (if rnd (6 * index + 2) < 0.5 then -1 else 1) * (baseSpeed + rnd (6 * index + 3) * 0.9),
      dy = (if rnd (6 * index + 4) < 0.5 then -1 else 1) * (baseSpeed + rnd (6 * index + 5) * 0.9),
      paused = False\<rparr>"

text \<open>
  \<open>velocities[index] = {...}\<close> for every index of \<open>images\<close>; slots beyond the last image
  (there are none when the array was created with \<open>images.length\<close>) are kept.
\<close>

definition initializePositionsAndVelocities ::
  "viewport \<Rightarrow> layout \<Rightarrow> (nat \<Rightarrow> real) \<Rightarrow> state \<Rightarrow> state" where
  "initializePositionsAndVelocities vp lay rnd st =
     \<lparr>images = map (\<lambda>(index, img). initImage vp (lay index) rnd index img)
                    (enumerate 0 (images st)),
      velocities = map (\<lambda>index. Some (initVelocity rnd index)) [0..<length (images st)]
                   @ drop (length (images st)) (velocities st)\<rparr>"

text \<open>The top-level \<open>images.forEach\<close> of \<open>script.js\<close>: base speed 1, range 0.5.\<close>

definition initImage_original :: "viewport \<Rightarrow> box \<Rightarrow> (nat \<Rightarrow> real) \<Rightarrow> nat \<Rightarrow> style \<Rightarrow> style" where
  "initImage_original vp rect rnd index img =
     (let x = rnd (6 * index) * (innerWidth vp - rect_width rect);
          y = rnd (6 * index + 1) * (innerHeight vp - rect_height rect)
      in img\<lparr>style_left := Some x, style_top := Some y\<rparr>)"

definition initVelocity_original :: "(nat \<Rightarrow> real) \<Rightarrow> nat \<Rightarrow> velocity" where
  "initVelocity_original rnd index =
     \<lparr>dx = (if rnd (6 * index + 2) < 0.5 then -1 else 1) * (1 + rnd (6 * index + 3) * 0.5),
      dy = (if rnd (6 * index + 4) < 0.5 then -1 else 1) * (1 + rnd (6 * index + 5) * 0.5),
      paused = False\<rparr>"

definition initialize_original ::
  "viewport \<Rightarrow> layout \<Rightarrow> (nat \<Rightarrow> real) \<Rightarrow> state \<Rightarrow> state" where
  "initialize_original vp lay rnd st =
     \<lparr>images = map (\<lambda>(index, img). initImage_original vp (lay index) rnd index img)
                    (enumerate 0 (images st)),
      velocities = map (\<lambda>index. Some (initVelocity_original rnd index)) [0..<length (images st)]
                   @ drop (length (images st)) (velocities st)\<rparr>"

section \<open>ReadinessGate\<close>

text \<open>
  An anchor holds an inner \<open><img>\<close> or none (\<open>querySelector\<close> returns \<open>null\<close>). Of the
  image the gate reads \<open>complete\<close> and \<open>naturalWidth\<close>. Each promise of
  \<open>loadPromises\<close> is either resolved or pending with the \<open>onDone\<close> listener attached
  for \<open>load\<close> and \<open>error\<close>. \<open>waitForInnerImages\<close> of the flash-avoiding script is
  the same function, with the empty list returned resolved by an explicit test.
\<close>

record img_element =
  complete :: bool
  naturalWidth :: nat

datatype promise = Resolved | Pending

datatype signal = Load | Error

definition loadPromise :: "img_element \<Rightarrow> promise" where
  "loadPromise img = (if complete img \<and> naturalWidth img \<noteq> 0 then Resolved else Pending)"

definition waitForAllImagesLoaded :: "img_element option list \<Rightarrow> promise list" where
  "waitForAllImagesLoaded anchors = map loadPromise (List.map_filter (\<lambda>a. a) anchors)"

text \<open>
  A \<open>load\<close> or \<open>error\<close> event on the \<open>k\<close>-th inner image: \<open>onDone\<close>, if still attached,
  resolves the promise; a resolved promise stays resolved.
\<close>

definition dispatch :: "signal \<Rightarrow> nat \<Rightarrow> promise list \<Rightarrow> promise list" where
  "dispatch sig k ps = (if k < length ps then ps[k := Resolved] else ps)"

text \<open>\<open>Promise.all\<close>: resolved once every promise is, at once for the empty list.\<close>

definition promise_all :: "promise list \<Rightarrow> promise" where
  "promise_all ps = (if filter (\<lambda>p. p = Pending) ps = [] then Resolved else Pending)"

section \<open>The page as a transition system\<close>

text \<open>
  After the gate has fired the page runs \<open>initializePositionsAndVelocities\<close>, then
  \<open>clampAllPositionsToViewport\<close>, and from then on reacts to pointer events, frames and
  resizes, one handler at a time. An exception thrown in a handler leaves the state as it was.
\<close>

definition boot :: "viewport \<Rightarrow> layout \<Rightarrow> layout \<Rightarrow> (nat \<Rightarrow> real) \<Rightarrow> style list \<Rightarrow> state" where
  "boot vp lay lay' rnd imgs =
     clampAllPositionsToViewport vp lay'
       (initializePositionsAndVelocities vp lay rnd
          \<lparr>images = imgs, velocities = replicate (length imgs) None\<rparr>)"

datatype event =
    MouseEnter nat
  | MouseLeave nat
  | TouchStart nat
  | Frame viewport layout
  | Resize viewport layout

fun handle :: "event \<Rightarrow> state \<Rightarrow> state" where
  "handle (MouseEnter index) st = mouseenter index st"
| "handle (MouseLeave index) st = (case mouseleave index st of Inl _ \<Rightarrow> st | Inr st' \<Rightarrow> st')"
| "handle (TouchStart index) st = touchstart index st"
| "handle (Frame vp lay) st = animate vp lay st"
| "handle (Resize vp lay) st = clampAllPositionsToViewport vp lay st"

fun run :: "event list \<Rightarrow> state \<Rightarrow> state" where
  "run [] st = st"
| "run (e # es) st = run es (handle e st)"

text \<open>
  The page of the original variant: the same handlers, with the original loop run on every
  frame. The flash-avoiding script registers all of them; \<open>script.js\<close> registers only
  \<open>mouseenter\<close> and \<open>mouseleave\<close>, so its runs have no \<open>TouchStart\<close> and no
  \<open>Resize\<close>.
\<close>

fun handle_original :: "event \<Rightarrow> state \<Rightarrow> state" where
  "handle_original (Frame vp lay) st = animate_original vp lay st"
| "handle_original e st = handle e st"

fun run_original :: "event list \<Rightarrow> state \<Rightarrow> state" where
  "run_original [] st = st"
| "run_original (e # es) st = run_original es (handle_original e st)"

section \<open>Properties\<close>

definition hasBody :: "state \<Rightarrow> nat \<Rightarrow> bool" where
  "hasBody st i = (lookup (velocities st) i \<noteq> None)"

definition pausedAt :: "state \<Rightarrow> nat \<Rightarrow> bool" where
  "pausedAt st i = (case lookup (velocities st) i of None \<Rightarrow> False | Some v \<Rightarrow> paused v)"

definition pausedIndices :: "state \<Rightarrow> nat list" where
  "pausedIndices st = filter (pausedAt st) [0..<length (velocities st)]"

text \<open>Pause exclusivity: at most one body is paused.\<close>

definition exclusive :: "state \<Rightarrow> bool" where
  "exclusive st = (length (pausedIndices st) \<le> 1)"

text \<open>The boundary invariant for an element of extent \<open>w\<close> by \<open>h\<close>.\<close>

definition insideViewport :: "viewport \<Rightarrow> real \<Rightarrow> real \<Rightarrow> style \<Rightarrow> bool" where
  "insideViewport vp w h img =
     (case (style_left img, style_top img) of
        (Some l, Some t) \<Rightarrow>
          0 \<le> l \<and> l \<le> innerWidth vp - w \<and> 0 \<le> t \<and> t \<le> innerHeight vp - h
      | _ \<Rightarrow> False)"

text \<open>The same with the far edge at \<open>max(0, viewport - extent)\<close>, as the code computes it.\<close>

definition contained :: "viewport \<Rightarrow> real \<Rightarrow> real \<Rightarrow> style \<Rightarrow> bool" where
  "contained vp w h img =
     (case (style_left img, style_top img) of
        (Some l, Some t) \<Rightarrow>
          0 \<le> l \<and> l \<le> max 0 (innerWidth vp - w) \<and> 0 \<le> t \<and> t \<le> max 0 (innerHeight vp - h)
      | _ \<Rightarrow> False)"

text \<open>The magnitudes of a body's velocity components.\<close>

definition speed :: "velocity option \<Rightarrow> (real \<times> real) option" where
  "speed vo = map_option (\<lambda>v. (\<bar>dx v\<bar>, \<bar>dy v\<bar>)) vo"

section \<open>Scenarios\<close>

text \<open>Viewport 800 by 600, one body of 50 by 50 at \<open>left = 798\<close>, \<open>top = 10\<close>, \<open>dx = 5\<close>, \<open>dy = 1\<close>.\<close>

definition scenario_viewport :: viewport where
  "scenario_viewport = \<lparr>innerWidth = 800, innerHeight = 600\<rparr>"

definition scenario_layout :: layout where
  "scenario_layout index =
     \<lparr>rect_left = 798, rect_top = 10, rect_width = 50, rect_height = 50,
      offsetWidth = 50, offsetHeight = 50\<rparr>"

definition scenario_state :: state where
  "scenario_state =
     \<lparr>images = [\<lparr>style_left = Some 798, style_top = Some 10\<rparr>],
      velocities = [Some \<lparr>dx = 5, dy = 1, paused = False\<rparr>]\<rparr>"

text \<open>The same body two pixels from the left edge, moving left.\<close>

definition edge_state :: state where
  "edge_state =
     \<lparr>images = [\<lparr>style_left = Some 2, style_top = Some 10\<rparr>],
      velocities = [Some \<lparr>dx = -5, dy = 1, paused = False\<rparr>]\<rparr>"

text \<open>A viewport smaller than where the scenario's body stands.\<close>

definition small_viewport :: viewport where
  "small_viewport = \<lparr>innerWidth = 300, innerHeight = 200\<rparr>"

text \<open>A body far outside the viewport on both axes.\<close>

definition far_state :: state where
  "far_state =
     \<lparr>images = [\<lparr>style_left = Some (-4000), style_top = Some 9000\<rparr>],
      velocities = [Some \<lparr>dx = -5, dy = 1, paused = False\<rparr>]\<rparr>"

text \<open>Two bodies, both marked paused.\<close>

definition two_bodies :: state where
  "two_bodies =
     \<lparr>images = [\<lparr>style_left = Some 100, style_top = Some 40\<rparr>,
                \<lparr>style_left = Some 300, style_top = Some 200\<rparr>],
      velocities = [Some \<lparr>dx = 1, dy = -1, paused = True\<rparr>,
                    Some \<lparr>dx = -1, dy = 1, paused = True\<rparr>]\<rparr>"

text \<open>A random source that always returns a quarter, one element not yet placed, and a short run.\<close>

definition fixed_rnd :: "nat \<Rightarrow> real" where
  "fixed_rnd n = 1 / 4"

definition unplaced :: "style list" where
  "unplaced = [\<lparr>style_left = None, style_top = None\<rparr>]"

definition hover_then_frame :: "event list" where
  "hover_then_frame = [MouseEnter 0, MouseLeave 0, Frame scenario_viewport scenario_layout]"

text \<open>One anchor whose inner image had already failed to load when the gate looked at it.\<close>

definition failed_anchor :: "img_element option list" where
  "failed_anchor = [Some \<lparr>complete = True, naturalWidth = 0\<rparr>]"




section \<open>Basic facts about the passes\<close>

subsection \<open>The clamp pass\<close>



lemma length_images_clampAll [simp]:
  "length (images (clampAllPositionsToViewport vp lay st)) = length (images st)"
  by (simp add: clampAllPositionsToViewport_def)

lemma velocities_clampAll [simp]:
  "velocities (clampAllPositionsToViewport vp lay st) = velocities st"
  by (simp add: clampAllPositionsToViewport_def)

lemma images_clampAll_nth:
  "k < length (images st) \<Longrightarrow>
   images (clampAllPositionsToViewport vp lay st) ! k = clampImage vp (lay k) (images st ! k)"
  by (simp add: clampAllPositionsToViewport_def nth_enumerate_eq)

lemma clampImage_contained:
  "contained vp (clampWidth b) (clampHeight b) (clampImage vp b img)"
  by (simp add: contained_def clampImage_def Let_def clamp_def)

lemma contained_inside:
  "w \<le> innerWidth vp \<Longrightarrow> h \<le> innerHeight vp \<Longrightarrow> contained vp w h img \<Longrightarrow> insideViewport vp w h img"
  by (simp add: contained_def insideViewport_def split: option.splits)

subsection \<open>The frame loops\<close>

lemma bounce_range:
  "0 \<le> hi \<Longrightarrow> 0 \<le> fst (bounce pos d 0 hi) \<and> fst (bounce pos d 0 hi) \<le> hi"
  by (simp add: bounce_def)

lemma bounce_speed: "\<bar>snd (bounce pos d lo hi)\<bar> = \<bar>d\<bar>"
  by (simp add: bounce_def)

lemma animateImage_contained:
  "\<not> paused v \<Longrightarrow>
   contained vp (rect_width b) (rect_height b) (fst (animateImage vp b img (Some v)))"
  using bounce_range [of "max 0 (innerWidth vp - rect_width b)" "currentLeft b img + dx v" "dx v"]
        bounce_range [of "max 0 (innerHeight vp - rect_height b)" "currentTop b img + dy v" "dy v"]
  by (simp add: contained_def animateImage_def Let_def split_beta)

lemma length_images_animate [simp]:
  "length (images (animate vp lay st)) = length (images st)"
  by (simp add: animate_def)

lemma length_velocities_animate [simp]:
  "length (velocities (animate vp lay st)) = length (velocities st)"
  by (simp add: animate_def)

lemma images_animate_nth:
  "k < length (images st) \<Longrightarrow>
   images (animate vp lay st) ! k
     = fst (animateImage vp (lay k) (images st ! k) (lookup (velocities st) k))"
  by (simp add: animate_def nth_enumerate_eq)

lemma velocities_animate_nth:
  "k < length (velocities st) \<Longrightarrow>
   velocities (animate vp lay st) ! k
     = (if k < length (images st)
        then snd (animateImage vp (lay k) (images st ! k) (velocities st ! k))
        else velocities st ! k)"
  by (simp add: animate_def nth_enumerate_eq)

lemma lookup_animate:
  "lookup (velocities (animate vp lay st)) j
     = (if j < length (images st)
        then snd (animateImage vp (lay j) (images st ! j) (lookup (velocities st) j))
        else lookup (velocities st) j)"
  by (simp add: lookup_def velocities_animate_nth animateImage_def)

lemma length_images_animate_original [simp]:
  "length (images (animate_original vp lay st)) = length (images st)"
  by (simp add: animate_original_def)

lemma length_velocities_animate_original [simp]:
  "length (velocities (animate_original vp lay st)) = length (velocities st)"
  by (simp add: animate_original_def)

lemma images_animate_original_nth:
  "k < length (images st) \<Longrightarrow>
   images (animate_original vp lay st) ! k
     = fst (animateImage_original vp (lay k) (images st ! k) (lookup (velocities st) k))"
  by (simp add: animate_original_def nth_enumerate_eq)

lemma velocities_animate_original_nth:
  "k < length (velocities st) \<Longrightarrow>
   velocities (animate_original vp lay st) ! k
     = (if k < length (images st)
        then snd (animateImage_original vp (lay k) (images st ! k) (velocities st ! k))
        else velocities st ! k)"
  by (simp add: animate_original_def nth_enumerate_eq)

subsection \<open>The pause protocol\<close>

lemma length_velocities_mouseenter [simp]:
  "length (velocities (mouseenter i st)) = length (velocities st)"
  by (simp add: mouseenter_def)

lemma images_mouseenter [simp]: "images (mouseenter i st) = images st"
  by (simp add: mouseenter_def)

lemma lookup_mouseenter:
  "lookup (velocities (mouseenter i st)) j
     = map_option (\<lambda>v. v\<lparr>paused := (j = i)\<rparr>) (lookup (velocities st) j)"
  by (simp add: mouseenter_def lookup_def nth_enumerate_eq)

lemma touchstart_mouseenter: "touchstart i st = mouseenter i st"
  by (simp add: touchstart_def mouseenter_def)

lemma hasBody_mouseenter [simp]: "hasBody (mouseenter i st) j = hasBody st j"
  by (simp add: hasBody_def lookup_mouseenter)

lemma pausedAt_mouseenter: "pausedAt (mouseenter i st) j = (j = i \<and> hasBody st i)"
  by (auto simp: pausedAt_def hasBody_def lookup_mouseenter split: option.splits)

lemma filter_eq_upt: "filter (\<lambda>j. j = i) [0..<n] = (if i < n then [i] else [])"
  by (induction n) auto

lemma hasBody_less: "hasBody st i \<Longrightarrow> i < length (velocities st)"
  by (simp add: hasBody_def lookup_def split: if_splits)

lemma pausedIndices_mouseenter:
  "pausedIndices (mouseenter i st) = (if hasBody st i then [i] else [])"
proof (cases "hasBody st i")
  case True
  then have "pausedAt (mouseenter i st) = (\<lambda>j. j = i)"
    by (simp add: pausedAt_mouseenter fun_eq_iff)
  with True show ?thesis
    by (simp add: pausedIndices_def filter_eq_upt hasBody_less)
next
  case False
  then have "pausedAt (mouseenter i st) = (\<lambda>j. False)"
    by (simp add: pausedAt_mouseenter fun_eq_iff)
  with False show ?thesis
    by (simp add: pausedIndices_def)
qed

lemma mouseleave_Inr:
  "mouseleave i st = Inr st' \<Longrightarrow>
   \<exists>v. lookup (velocities st) i = Some v \<and>
       st' = st\<lparr>velocities := (velocities st)[i := Some (v\<lparr>paused := False\<rparr>)]\<rparr>"
  by (auto simp: mouseleave_def split: option.splits)

lemma lookup_update:
  "lookup (vs[i := x]) j = (if j = i \<and> i < length vs then x else lookup vs j)"
  by (auto simp: lookup_def)

lemma pausedAt_mouseleave:
  "mouseleave i st = Inr st' \<Longrightarrow> pausedAt st' j = (pausedAt st j \<and> j \<noteq> i)"
  by (auto simp: pausedAt_def lookup_update dest!: mouseleave_Inr split: option.splits)
    (auto simp: lookup_def split: if_splits)

lemma length_velocities_mouseleave:
  "mouseleave i st = Inr st' \<Longrightarrow> length (velocities st') = length (velocities st)"
  by (auto dest!: mouseleave_Inr)

lemma pausedIndices_mouseleave:
  "mouseleave i st = Inr st' \<Longrightarrow> pausedIndices st' = filter (\<lambda>j. j \<noteq> i) (pausedIndices st)"
  by (auto simp: pausedIndices_def pausedAt_mouseleave length_velocities_mouseleave intro: filter_cong)

lemma paused_animateImage:
  "map_option paused (snd (animateImage vp b img vo)) = map_option paused vo"
  by (simp add: animateImage_def Let_def split_beta split: option.splits)

lemma pausedAt_alt: "pausedAt st j = (map_option paused (lookup (velocities st) j) = Some True)"
  by (simp add: pausedAt_def split: option.splits)

lemma pausedAt_animate: "pausedAt (animate vp lay st) j = pausedAt st j"
proof -
  have "map_option paused (lookup (velocities (animate vp lay st)) j)
      = map_option paused (lookup (velocities st) j)"
    by (simp add: lookup_animate paused_animateImage)
  then show ?thesis
    by (simp only: pausedAt_alt)
qed

lemma pausedIndices_animate: "pausedIndices (animate vp lay st) = pausedIndices st"
  by (simp add: pausedIndices_def pausedAt_animate fun_eq_iff cong: filter_cong)

lemma pausedIndices_clampAll: "pausedIndices (clampAllPositionsToViewport vp lay st) = pausedIndices st"
  by (simp add: pausedIndices_def pausedAt_def fun_eq_iff cong: filter_cong)

lemma exclusive_handle: "exclusive st \<Longrightarrow> exclusive (handle e st)"
proof (cases e)
  case (MouseLeave i)
  assume a: "exclusive st"
  show ?thesis
  proof (cases "mouseleave i st")
    case (Inl err)
    with a MouseLeave show ?thesis by simp
  next
    case (Inr st')
    have "length (filter (\<lambda>j. j \<noteq> i) (pausedIndices st)) \<le> length (pausedIndices st)"
      by (rule length_filter_le)
    also have "\<dots> \<le> 1"
      using a by (simp add: exclusive_def)
    finally show ?thesis
      using Inr MouseLeave by (simp add: exclusive_def pausedIndices_mouseleave)
  qed
qed (simp_all add: exclusive_def pausedIndices_mouseenter touchstart_mouseenter
      pausedIndices_animate pausedIndices_clampAll)

lemma exclusive_run: "exclusive st \<Longrightarrow> exclusive (run es st)"
  by (induction es arbitrary: st) (simp_all add: exclusive_handle)

lemma paused_animateImage_original:
  "map_option paused (snd (animateImage_original vp b img vo)) = map_option paused vo"
  by (simp add: animateImage_original_def Let_def split_beta split: option.splits)

lemma lookup_animate_original:
  "lookup (velocities (animate_original vp lay st)) j
     = (if j < length (images st)
        then snd (animateImage_original vp (lay j) (images st ! j) (lookup (velocities st) j))
        else lookup (velocities st) j)"
  by (simp add: lookup_def velocities_animate_original_nth animateImage_original_def)

lemma pausedAt_animate_original: "pausedAt (animate_original vp lay st) j = pausedAt st j"
proof -
  have "map_option paused (lookup (velocities (animate_original vp lay st)) j)
      = map_option paused (lookup (velocities st) j)"
    by (simp add: lookup_animate_original paused_animateImage_original)
  then show ?thesis
    by (simp only: pausedAt_alt)
qed

lemma pausedIndices_animate_original:
  "pausedIndices (animate_original vp lay st) = pausedIndices st"
  by (simp add: pausedIndices_def pausedAt_animate_original fun_eq_iff cong: filter_cong)

lemma exclusive_handle_original: "exclusive st \<Longrightarrow> exclusive (handle_original e st)"
proof (cases e)
  case (Frame vp lay)
  assume "exclusive st"
  with Frame show ?thesis
    by (simp add: exclusive_def pausedIndices_animate_original)
qed (simp_all add: exclusive_handle del: handle.simps)

lemma exclusive_run_original: "exclusive st \<Longrightarrow> exclusive (run_original es st)"
  by (induction es arbitrary: st) (simp_all add: exclusive_handle_original)

lemma velocities_boot:
  "velocities (boot vp lay lay' rnd imgs)
     = map (\<lambda>index. Some (initVelocity rnd index)) [0..<length imgs]"
  by (simp add: boot_def initializePositionsAndVelocities_def)

lemma pausedIndices_boot: "pausedIndices (boot vp lay lay' rnd imgs) = []"
  by (simp add: pausedIndices_def pausedAt_def lookup_def velocities_boot initVelocity_def
      filter_empty_conv)

lemma velocities_initialize_original:
  "velocities (initialize_original vp lay rnd \<lparr>images = imgs, velocities = []\<rparr>)
     = map (\<lambda>index. Some (initVelocity_original rnd index)) [0..<length imgs]"
  by (simp add: initialize_original_def)

lemma pausedIndices_initialize_original:
  "pausedIndices (initialize_original vp lay rnd \<lparr>images = imgs, velocities = []\<rparr>) = []"
  by (simp add: pausedIndices_def pausedAt_def lookup_def velocities_initialize_original
      initVelocity_original_def filter_empty_conv)

subsection \<open>The fallback for a stored zero\<close>

lemma currentLeft_zero: "currentLeft b (img\<lparr>style_left := Some 0\<rparr>) = rect_left b"
  by (simp add: currentLeft_def or_parsed_def or_num_def)

lemma currentLeft_missing: "currentLeft b (img\<lparr>style_left := None\<rparr>) = rect_left b"
  by (simp add: currentLeft_def or_parsed_def or_num_def)

lemma currentTop_zero: "currentTop b (img\<lparr>style_top := Some 0\<rparr>) = rect_top b"
  by (simp add: currentTop_def or_parsed_def or_num_def)

lemma currentTop_missing: "currentTop b (img\<lparr>style_top := None\<rparr>) = rect_top b"
  by (simp add: currentTop_def or_parsed_def or_num_def)

lemma currentLeft_top_update [simp]: "currentLeft b (img\<lparr>style_top := x\<rparr>) = currentLeft b img"
  by (simp add: currentLeft_def)

lemma currentTop_left_update [simp]: "currentTop b (img\<lparr>style_left := x\<rparr>) = currentTop b img"
  by (simp add: currentTop_def)

lemma clampImage_zero_left:
  "clampImage vp b (img\<lparr>style_left := Some 0\<rparr>) = clampImage vp b (img\<lparr>style_left := None\<rparr>)"
  by (simp add: clampImage_def Let_def currentLeft_zero currentLeft_missing)

lemma clampImage_zero_top:
  "clampImage vp b (img\<lparr>style_top := Some 0\<rparr>) = clampImage vp b (img\<lparr>style_top := None\<rparr>)"
  by (simp add: clampImage_def Let_def currentTop_zero currentTop_missing)

lemma animateImage_zero_left:
  "animateImage vp b (img\<lparr>style_left := Some 0\<rparr>) (Some v)
     = (if paused v then (img\<lparr>style_left := Some 0\<rparr>, Some v)
        else animateImage vp b (img\<lparr>style_left := None\<rparr>) (Some v))"
  by (simp add: animateImage_def Let_def currentLeft_zero currentLeft_missing split_beta)

lemma animateImage_zero_top:
  "animateImage vp b (img\<lparr>style_top := Some 0\<rparr>) (Some v)
     = (if paused v then (img\<lparr>style_top := Some 0\<rparr>, Some v)
        else animateImage vp b (img\<lparr>style_top := None\<rparr>) (Some v))"
  by (simp add: animateImage_def Let_def currentTop_zero currentTop_missing split_beta)

lemma animate_zero_left:
  assumes "lookup (velocities st) k = Some v" and "\<not> paused v"
  shows "animate vp lay (st\<lparr>images := (images st)[k := img\<lparr>style_left := Some 0\<rparr>]\<rparr>)
       = animate vp lay (st\<lparr>images := (images st)[k := img\<lparr>style_left := None\<rparr>]\<rparr>)"
proof -
  from assms have "k < length (velocities st)" and "velocities st ! k = Some v"
    by (simp_all add: lookup_def split: if_splits)
  with assms show ?thesis
    by (cases "k < length (images st)")
      (auto simp: animate_def list_eq_iff_nth_eq nth_enumerate_eq nth_list_update
        animateImage_zero_left lookup_def)
qed

lemma animate_zero_top:
  assumes "lookup (velocities st) k = Some v" and "\<not> paused v"
  shows "animate vp lay (st\<lparr>images := (images st)[k := img\<lparr>style_top := Some 0\<rparr>]\<rparr>)
       = animate vp lay (st\<lparr>images := (images st)[k := img\<lparr>style_top := None\<rparr>]\<rparr>)"
proof -
  from assms have "k < length (velocities st)" and "velocities st ! k = Some v"
    by (simp_all add: lookup_def split: if_splits)
  with assms show ?thesis
    by (cases "k < length (images st)")
      (auto simp: animate_def list_eq_iff_nth_eq nth_enumerate_eq nth_list_update
        animateImage_zero_top lookup_def)
qed

lemma clampAll_zero_left:
  "clampAllPositionsToViewport vp lay (st\<lparr>images := (images st)[k := img\<lparr>style_left := Some 0\<rparr>]\<rparr>)
     = clampAllPositionsToViewport vp lay (st\<lparr>images := (images st)[k := img\<lparr>style_left := None\<rparr>]\<rparr>)"
  by (cases "k < length (images st)")
    (auto simp: clampAllPositionsToViewport_def list_eq_iff_nth_eq nth_enumerate_eq
      nth_list_update clampImage_zero_left)

lemma clampAll_zero_top:
  "clampAllPositionsToViewport vp lay (st\<lparr>images := (images st)[k := img\<lparr>style_top := Some 0\<rparr>]\<rparr>)
     = clampAllPositionsToViewport vp lay (st\<lparr>images := (images st)[k := img\<lparr>style_top := None\<rparr>]\<rparr>)"
  by (cases "k < length (images st)")
    (auto simp: clampAllPositionsToViewport_def list_eq_iff_nth_eq nth_enumerate_eq
      nth_list_update clampImage_zero_top)


text \<open>With a stored 0 and a measured offset of 798 the pass moves the element to the far edge.\<close>

lemma clampImage_twice_offset:
  "clampImage scenario_viewport (scenario_layout 0) \<lparr>style_left = Some (-5), style_top = Some 10\<rparr>
     = \<lparr>style_left = Some 0, style_top = Some 10\<rparr> \<and>
   clampImage scenario_viewport (scenario_layout 0) \<lparr>style_left = Some 0, style_top = Some 10\<rparr>
     = \<lparr>style_left = Some 750, style_top = Some 10\<rparr>"
  by (simp add: clampImage_def clampWidth_def clampHeight_def currentLeft_def currentTop_def
      or_num_def or_parsed_def clamp_def scenario_viewport_def scenario_layout_def)

subsection \<open>Speeds\<close>

lemma speed_animateImage: "speed (snd (animateImage vp b img vo)) = speed vo"
  by (simp add: speed_def animateImage_def Let_def split_beta bounce_def split: option.splits)

lemma speed_animateImage_original: "speed (snd (animateImage_original vp b img vo)) = speed vo"
  by (simp add: speed_def animateImage_original_def Let_def split_beta reflect_def
      split: option.splits)

lemma speeds_animate: "map speed (velocities (animate vp lay st)) = map speed (velocities st)"
  by (simp add: list_eq_iff_nth_eq velocities_animate_nth speed_animateImage)

lemma speeds_animate_original:
  "map speed (velocities (animate_original vp lay st)) = map speed (velocities st)"
  by (simp add: list_eq_iff_nth_eq velocities_animate_original_nth speed_animateImage_original)

lemma speeds_mouseenter: "map speed (velocities (mouseenter i st)) = map speed (velocities st)"
  by (simp add: mouseenter_def list_eq_iff_nth_eq nth_enumerate_eq speed_def option.map_comp comp_def)

lemma speeds_mouseleave:
  assumes "mouseleave i st = Inr st'"
  shows "map speed (velocities st') = map speed (velocities st)"
proof -
  from assms obtain v where v: "lookup (velocities st) i = Some v"
    and st': "st' = st\<lparr>velocities := (velocities st)[i := Some (v\<lparr>paused := False\<rparr>)]\<rparr>"
    by (auto dest: mouseleave_Inr)
  from v have "i < length (velocities st)" and "velocities st ! i = Some v"
    by (simp_all add: lookup_def split: if_splits)
  then show ?thesis
    unfolding st' by (simp add: list_eq_iff_nth_eq nth_list_update speed_def)
qed

lemma speeds_handle: "map speed (velocities (handle e st)) = map speed (velocities st)"
proof (cases e)
  case (MouseLeave i)
  then show ?thesis
    by (cases "mouseleave i st") (simp_all add: speeds_mouseleave)
qed (simp_all add: speeds_mouseenter touchstart_mouseenter speeds_animate)

lemma speeds_run: "map speed (velocities (run es st)) = map speed (velocities st)"
  by (induction es arbitrary: st) (simp_all add: speeds_handle)

lemma speeds_handle_original:
  "map speed (velocities (handle_original e st)) = map speed (velocities st)"
  by (cases e) (simp_all add: speeds_handle speeds_animate_original del: handle.simps)

lemma speeds_run_original:
  "map speed (velocities (run_original es st)) = map speed (velocities st)"
  by (induction es arbitrary: st) (simp_all add: speeds_handle_original)

lemma speed_initVelocity:
  assumes "0 \<le> rnd (6 * k + 3)" and "0 \<le> rnd (6 * k + 5)"
  shows "speed (Some (initVelocity rnd k))
       = Some (baseSpeed + rnd (6 * k + 3) * 0.9, baseSpeed + rnd (6 * k + 5) * 0.9)"
  using assms by (simp add: speed_def initVelocity_def baseSpeed_def abs_mult)

lemma speed_initVelocity_original:
  assumes "0 \<le> rnd (6 * k + 3)" and "0 \<le> rnd (6 * k + 5)"
  shows "speed (Some (initVelocity_original rnd k))
       = Some (1 + rnd (6 * k + 3) * 0.5, 1 + rnd (6 * k + 5) * 0.5)"
  using assms by (simp add: speed_def initVelocity_original_def abs_mult)

lemma speed_SomeD:
  "speed vo = Some (a, b) \<Longrightarrow> \<exists>v. vo = Some v \<and> \<bar>dx v\<bar> = a \<and> \<bar>dy v\<bar> = b"
  by (auto simp: speed_def)

lemma speeds_nth:
  assumes eq: "map speed vs' = map speed vs" and k: "k < length vs" and v0: "vs ! k = Some v0"
  shows "\<exists>v. lookup vs' k = Some v \<and> \<bar>dx v\<bar> = \<bar>dx v0\<bar> \<and> \<bar>dy v\<bar> = \<bar>dy v0\<bar>"
proof -
  from eq have len: "length vs' = length vs"
    by (rule map_eq_imp_length_eq)
  from eq have "map speed vs' ! k = map speed vs ! k"
    by simp
  with k len v0 have "speed (vs' ! k) = Some (\<bar>dx v0\<bar>, \<bar>dy v0\<bar>)"
    by (simp add: speed_def)
  then obtain v where "vs' ! k = Some v" and "\<bar>dx v\<bar> = \<bar>dx v0\<bar>" and "\<bar>dy v\<bar> = \<bar>dy v0\<bar>"
    by (auto dest: speed_SomeD)
  with k len show ?thesis
    by (simp add: lookup_def)
qed

lemma initVelocity_bounds:
  assumes "0 \<le> rnd (6 * k + 3)" and "0 \<le> rnd (6 * k + 5)"
  shows "baseSpeed \<le> \<bar>dx (initVelocity rnd k)\<bar> \<and> baseSpeed \<le> \<bar>dy (initVelocity rnd k)\<bar>"
  using assms by (simp add: initVelocity_def baseSpeed_def abs_mult)

lemma initVelocity_original_bounds:
  assumes "0 \<le> rnd (6 * k + 3)" and "0 \<le> rnd (6 * k + 5)"
  shows "1 \<le> \<bar>dx (initVelocity_original rnd k)\<bar> \<and> 1 \<le> \<bar>dy (initVelocity_original rnd k)\<bar>"
  using assms by (simp add: initVelocity_original_def abs_mult)

subsection \<open>The readiness gate\<close>

lemma loadPromise_loaded:
  "complete img \<Longrightarrow> naturalWidth img \<noteq> 0 \<Longrightarrow> loadPromise img = Resolved"
  by (simp add: loadPromise_def)

lemma loadPromise_loading: "\<not> complete img \<Longrightarrow> loadPromise img = Pending"
  by (simp add: loadPromise_def)

lemma waitForAllImagesLoaded_no_img:
  "waitForAllImagesLoaded (None # anchors) = waitForAllImagesLoaded anchors"
  by (simp add: waitForAllImagesLoaded_def)

lemma waitForAllImagesLoaded_img:
  "waitForAllImagesLoaded (Some img # anchors) = loadPromise img # waitForAllImagesLoaded anchors"
  by (simp add: waitForAllImagesLoaded_def)

lemma gate_empty: "promise_all (waitForAllImagesLoaded []) = Resolved"
  by (simp add: waitForAllImagesLoaded_def promise_all_def)

lemma dispatch_settles:
  "k < length ps \<Longrightarrow> dispatch sig k ps ! k = Resolved"
  by (simp add: dispatch_def)

lemma dispatch_others:
  "j \<noteq> k \<Longrightarrow> dispatch sig k ps ! j = ps ! j"
  by (simp add: dispatch_def)

section \<open>The claims\<close>

text \<open>
  C1, as stated: for every body no larger than the viewport, after any completed per-frame
  update or clamp, \<open>0 \<le> left \<le> viewportWidth - width\<close> and \<open>0 \<le> top \<le> viewportHeight - height\<close>.
  The original loop refutes it: a body at \<open>left = 2\<close> moving with \<open>dx = -5\<close> is written back
  at \<open>left = -3\<close>.
\<close>

theorem boundary_invariant_counterexample:
  "rect_width (scenario_layout 0) \<le> innerWidth scenario_viewport \<and>
   rect_height (scenario_layout 0) \<le> innerHeight scenario_viewport \<and>
   images (animate_original scenario_viewport scenario_layout edge_state) ! 0
     = \<lparr>style_left = Some (-3), style_top = Some 11\<rparr> \<and>
   \<not> insideViewport scenario_viewport (rect_width (scenario_layout 0)) (rect_height (scenario_layout 0))
       (images (animate_original scenario_viewport scenario_layout edge_state) ! 0)"
  by (simp add: scenario_viewport_def scenario_layout_def edge_state_def animate_original_def
      animateImage_original_def reflect_def lookup_def insideViewport_def)

text \<open>
  C1, amended: for every body no larger than the viewport, the invariant holds after a clamp
  and after a per-frame update of an unpaused body by the clamping variant, which corrects a
  crossing before the write-back. The original variant writes the advanced position
  \<open>left + dx\<close>, \<open>top + dy\<close> back as it is.
\<close>

theorem boundary_invariant:
  assumes "k < length (images st)"
  shows "(clampWidth (lay k) \<le> innerWidth vp \<and> clampHeight (lay k) \<le> innerHeight vp \<longrightarrow>
            insideViewport vp (clampWidth (lay k)) (clampHeight (lay k))
              (images (clampAllPositionsToViewport vp lay st) ! k))
       \<and> (rect_width (lay k) \<le> innerWidth vp \<and> rect_height (lay k) \<le> innerHeight vp \<and>
            lookup (velocities st) k = Some v \<and> \<not> paused v \<longrightarrow>
            insideViewport vp (rect_width (lay k)) (rect_height (lay k))
              (images (animate vp lay st) ! k))
       \<and> (lookup (velocities st) k = Some v \<and> \<not> paused v \<and>
            images st ! k = \<lparr>style_left = Some l, style_top = Some t\<rparr> \<longrightarrow>
            images (animate_original vp lay st) ! k
              = \<lparr>style_left = Some (l + dx v), style_top = Some (t + dy v)\<rparr>)"
proof (intro conjI impI)
  assume "clampWidth (lay k) \<le> innerWidth vp \<and> clampHeight (lay k) \<le> innerHeight vp"
  then show "insideViewport vp (clampWidth (lay k)) (clampHeight (lay k))
      (images (clampAllPositionsToViewport vp lay st) ! k)"
    using assms by (simp add: images_clampAll_nth contained_inside clampImage_contained)
next
  assume "rect_width (lay k) \<le> innerWidth vp \<and> rect_height (lay k) \<le> innerHeight vp \<and>
      lookup (velocities st) k = Some v \<and> \<not> paused v"
  then show "insideViewport vp (rect_width (lay k)) (rect_height (lay k))
      (images (animate vp lay st) ! k)"
    using assms by (simp add: images_animate_nth contained_inside animateImage_contained)
next
  assume "lookup (velocities st) k = Some v \<and> \<not> paused v \<and>
      images st ! k = \<lparr>style_left = Some l, style_top = Some t\<rparr>"
  then show "images (animate_original vp lay st) ! k
      = \<lparr>style_left = Some (l + dx v), style_top = Some (t + dy v)\<rparr>"
    using assms
    by (simp add: images_animate_original_nth animateImage_original_def reflect_def Let_def)
qed

theorem boundary_invariant_witness:
  "0 < length (images scenario_state) \<and>
   clampWidth (scenario_layout 0) \<le> innerWidth scenario_viewport \<and>
   clampHeight (scenario_layout 0) \<le> innerHeight scenario_viewport \<and>
   rect_width (scenario_layout 0) \<le> innerWidth scenario_viewport \<and>
   rect_height (scenario_layout 0) \<le> innerHeight scenario_viewport \<and>
   lookup (velocities scenario_state) 0 = Some \<lparr>dx = 5, dy = 1, paused = False\<rparr> \<and>
   images scenario_state ! 0 = \<lparr>style_left = Some 798, style_top = Some 10\<rparr> \<and>
   insideViewport scenario_viewport 50 50
     (images (clampAllPositionsToViewport scenario_viewport scenario_layout scenario_state) ! 0) \<and>
   insideViewport scenario_viewport 50 50
     (images (animate scenario_viewport scenario_layout scenario_state) ! 0) \<and>
   images (animate_original scenario_viewport scenario_layout scenario_state) ! 0
     = \<lparr>style_left = Some 803, style_top = Some 11\<rparr>"
  using boundary_invariant [of 0 scenario_state scenario_layout scenario_viewport
      "\<lparr>dx = 5, dy = 1, paused = False\<rparr>" 798 10]
  by (simp add: scenario_state_def scenario_viewport_def scenario_layout_def lookup_def
      clampWidth_def clampHeight_def or_num_def)

text \<open>
  C2, as stated: in the scenario one update produces \<open>left = 750\<close>. The original loop
  writes \<open>left = 803\<close>.
\<close>

theorem scenario_counterexample:
  "style_left (images (animate_original scenario_viewport scenario_layout scenario_state) ! 0) = Some 803 \<and>
   style_left (images (animate_original scenario_viewport scenario_layout scenario_state) ! 0) \<noteq> Some 750"
  by (simp add: scenario_viewport_def scenario_layout_def scenario_state_def animate_original_def
      animateImage_original_def reflect_def lookup_def)

text \<open>
  C2, amended: in the scenario one update of the clamping variant produces \<open>left = 750\<close>,
  \<open>dx = -5\<close>, \<open>top = 11\<close> and leaves \<open>dy = 1\<close>; one update of the original variant
  produces \<open>left = 803\<close> with the same \<open>dx = -5\<close>, \<open>top = 11\<close> and \<open>dy = 1\<close>.
\<close>

theorem scenario_single_update:
  "animate scenario_viewport scenario_layout scenario_state
     = \<lparr>images = [\<lparr>style_left = Some 750, style_top = Some 11\<rparr>],
        velocities = [Some \<lparr>dx = -5, dy = 1, paused = False\<rparr>]\<rparr> \<and>
   animate_original scenario_viewport scenario_layout scenario_state
     = \<lparr>images = [\<lparr>style_left = Some 803, style_top = Some 11\<rparr>],
        velocities = [Some \<lparr>dx = -5, dy = 1, paused = False\<rparr>]\<rparr>"
  by (simp add: scenario_viewport_def scenario_layout_def scenario_state_def animate_def
      animate_original_def animateImage_def animateImage_original_def reflect_def bounce_def
      lookup_def currentLeft_def currentTop_def or_num_def or_parsed_def)

text \<open>
  C3: pause exclusivity. Whatever the pause flags were, after pointer-enter or touch-start on
  index \<open>i\<close> the body at \<open>j\<close> is paused exactly when \<open>j = i\<close> (and there is a body at
  \<open>i\<close>); so the paused indices are \<open>[i]\<close>, hovering body 0 and then body 1 leaves only
  body 1 paused, and in every state the page reaches after start-up (with either frame loop)
  at most one body is paused.
\<close>

theorem pause_exclusivity:
  "pausedAt (mouseenter i st) j = (j = i \<and> hasBody st i) \<and>
   pausedAt (touchstart i st) j = (j = i \<and> hasBody st i) \<and>
   pausedIndices (mouseenter i st) = (if hasBody st i then [i] else []) \<and>
   pausedIndices (touchstart i st) = (if hasBody st i then [i] else []) \<and>
   pausedAt (mouseenter 1 (mouseenter 0 st)) j = (j = 1 \<and> hasBody st 1) \<and>
   exclusive (run es (boot vp lay lay' rnd imgs)) \<and>
   exclusive (run_original es (initialize_original vp lay rnd \<lparr>images = imgs, velocities = []\<rparr>))"
proof -
  have "exclusive (boot vp lay lay' rnd imgs)"
    by (simp add: exclusive_def pausedIndices_boot)
  then have clamping: "exclusive (run es (boot vp lay lay' rnd imgs))"
    by (rule exclusive_run)
  have "exclusive (initialize_original vp lay rnd \<lparr>images = imgs, velocities = []\<rparr>)"
    by (simp add: exclusive_def pausedIndices_initialize_original)
  then have original:
    "exclusive (run_original es (initialize_original vp lay rnd \<lparr>images = imgs, velocities = []\<rparr>))"
    by (rule exclusive_run_original)
  from clamping original show ?thesis
    by (simp add: pausedAt_mouseenter touchstart_mouseenter pausedIndices_mouseenter)
qed

text \<open>
  C4: the readiness gate counts an image that had already failed at observation time
  (\<open>complete\<close> with \<open>naturalWidth = 0\<close>) as settled immediately. The code does not: its
  promise is left pending, waiting for a \<open>load\<close> or \<open>error\<close> event, and so is
  \<open>Promise.all\<close>.
\<close>

theorem failed_image_stalls_gate:
  "waitForAllImagesLoaded failed_anchor = [Pending] \<and>
   promise_all (waitForAllImagesLoaded failed_anchor) = Pending"
  by (simp add: failed_anchor_def waitForAllImagesLoaded_img waitForAllImagesLoaded_def
      loadPromise_def promise_all_def)




text \<open>
  C6: resize safety and frame condition. For every state and every viewport,
  \<open>clampAllPositionsToViewport\<close> leaves every element at
  \<open>0 \<le> left \<le> max(0, viewportWidth - width)\<close>, \<open>0 \<le> top \<le> max(0, viewportHeight - height)\<close>
  and leaves the \<open>velocities\<close> array (\<open>dx\<close>, \<open>dy\<close>, \<open>paused\<close>) as it was.
\<close>

theorem resize_safety:
  "velocities (clampAllPositionsToViewport vp lay st) = velocities st \<and>
   length (images (clampAllPositionsToViewport vp lay st)) = length (images st) \<and>
   (\<forall>k < length (images st).
      contained vp (clampWidth (lay k)) (clampHeight (lay k))
        (images (clampAllPositionsToViewport vp lay st) ! k))"
proof (intro conjI allI impI)
  show "velocities (clampAllPositionsToViewport vp lay st) = velocities st"
    by (rule velocities_clampAll)
next
  show "length (images (clampAllPositionsToViewport vp lay st)) = length (images st)"
    by (rule length_images_clampAll)
next
  fix k assume "k < length (images st)"
  then have "images (clampAllPositionsToViewport vp lay st) ! k = clampImage vp (lay k) (images st ! k)"
    by (rule images_clampAll_nth)
  then show "contained vp (clampWidth (lay k)) (clampHeight (lay k))
      (images (clampAllPositionsToViewport vp lay st) ! k)"
    by (simp add: clampImage_contained)
qed

theorem resize_safety_witness:
  "0 < length (images scenario_state) \<and>
   velocities (clampAllPositionsToViewport small_viewport scenario_layout scenario_state)
     = [Some \<lparr>dx = 5, dy = 1, paused = False\<rparr>] \<and>
   contained small_viewport 50 50
     (images (clampAllPositionsToViewport small_viewport scenario_layout scenario_state) ! 0) \<and>
   images (clampAllPositionsToViewport small_viewport scenario_layout scenario_state) ! 0
     = \<lparr>style_left = Some 250, style_top = Some 10\<rparr>"
  using resize_safety [of small_viewport scenario_layout scenario_state]
  by (simp add: scenario_state_def small_viewport_def scenario_layout_def clampWidth_def
      clampHeight_def or_num_def clampAllPositionsToViewport_def clampImage_def clamp_def
      currentLeft_def currentTop_def or_parsed_def)

text \<open>
  C7: resume locality. Pointer-leave on the body at index \<open>i\<close> returns normally and sets
  \<open>paused = false\<close> at \<open>i\<close>, keeping that body's \<open>dx\<close> and \<open>dy\<close>; every other entry
  of \<open>velocities\<close> and every position are unchanged.
\<close>

theorem resume_locality:
  assumes "hasBody st i"
  shows "\<exists>st' v. mouseleave i st = Inr st' \<and>
           lookup (velocities st) i = Some v \<and>
           lookup (velocities st') i = Some (v\<lparr>paused := False\<rparr>) \<and>
           (\<forall>j. j \<noteq> i \<longrightarrow> lookup (velocities st') j = lookup (velocities st) j) \<and>
           length (velocities st') = length (velocities st) \<and>
           images st' = images st"
proof -
  from assms obtain v where v: "lookup (velocities st) i = Some v"
    by (auto simp: hasBody_def)
  let ?st' = "st\<lparr>velocities := (velocities st)[i := Some (v\<lparr>paused := False\<rparr>)]\<rparr>"
  have "mouseleave i st = Inr ?st'"
    using v by (simp add: mouseleave_def)
  moreover have "lookup (velocities ?st') i = Some (v\<lparr>paused := False\<rparr>)"
    using assms by (simp add: lookup_update hasBody_less)
  moreover have "\<forall>j. j \<noteq> i \<longrightarrow> lookup (velocities ?st') j = lookup (velocities st) j"
    by (simp add: lookup_update)
  ultimately show ?thesis
    using v by simp
qed

theorem resume_locality_witness:
  "hasBody two_bodies 0 \<and>
   mouseleave 0 two_bodies
     = Inr \<lparr>images = [\<lparr>style_left = Some 100, style_top = Some 40\<rparr>,
                      \<lparr>style_left = Some 300, style_top = Some 200\<rparr>],
            velocities = [Some \<lparr>dx = 1, dy = -1, paused = False\<rparr>,
                          Some \<lparr>dx = -1, dy = 1, paused = True\<rparr>]\<rparr>"
  using resume_locality [of two_bodies 0]
  by (simp add: two_bodies_def hasBody_def lookup_def mouseleave_def)

text \<open>
  C8: a stored coordinate of exactly 0 is indistinguishable from a missing one. The clamp pass
  gives the same state whether the inline \<open>left\<close> (or \<open>top\<close>) of an element parses to 0 or
  does not parse, and so does the per-frame update of the clamping variant for an unpaused
  body: in both the value read is the bounding-box offset, then 0.
\<close>

theorem zero_is_missing:
  "clampAllPositionsToViewport vp lay (st\<lparr>images := (images st)[k := img\<lparr>style_left := Some 0\<rparr>]\<rparr>)
     = clampAllPositionsToViewport vp lay (st\<lparr>images := (images st)[k := img\<lparr>style_left := None\<rparr>]\<rparr>) \<and>
   clampAllPositionsToViewport vp lay (st\<lparr>images := (images st)[k := img\<lparr>style_top := Some 0\<rparr>]\<rparr>)
     = clampAllPositionsToViewport vp lay (st\<lparr>images := (images st)[k := img\<lparr>style_top := None\<rparr>]\<rparr>) \<and>
   (lookup (velocities st) k = Some v \<and> \<not> paused v \<longrightarrow>
      animate vp lay (st\<lparr>images := (images st)[k := img\<lparr>style_left := Some 0\<rparr>]\<rparr>)
        = animate vp lay (st\<lparr>images := (images st)[k := img\<lparr>style_left := None\<rparr>]\<rparr>) \<and>
      animate vp lay (st\<lparr>images := (images st)[k := img\<lparr>style_top := Some 0\<rparr>]\<rparr>)
        = animate vp lay (st\<lparr>images := (images st)[k := img\<lparr>style_top := None\<rparr>]\<rparr>)) \<and>
   currentLeft (lay k) (img\<lparr>style_left := Some 0\<rparr>) = or_num (rect_left (lay k)) 0 \<and>
   currentTop (lay k) (img\<lparr>style_top := Some 0\<rparr>) = or_num (rect_top (lay k)) 0"
proof (intro conjI impI)
  assume "lookup (velocities st) k = Some v \<and> \<not> paused v"
  then show "animate vp lay (st\<lparr>images := (images st)[k := img\<lparr>style_left := Some 0\<rparr>]\<rparr>)
      = animate vp lay (st\<lparr>images := (images st)[k := img\<lparr>style_left := None\<rparr>]\<rparr>)"
    by (simp add: animate_zero_left)
next
  assume "lookup (velocities st) k = Some v \<and> \<not> paused v"
  then show "animate vp lay (st\<lparr>images := (images st)[k := img\<lparr>style_top := Some 0\<rparr>]\<rparr>)
      = animate vp lay (st\<lparr>images := (images st)[k := img\<lparr>style_top := None\<rparr>]\<rparr>)"
    by (simp add: animate_zero_top)
qed (simp_all add: clampAll_zero_left clampAll_zero_top currentLeft_zero currentTop_zero or_num_def)

theorem zero_is_missing_witness:
  "lookup (velocities scenario_state) 0 = Some \<lparr>dx = 5, dy = 1, paused = False\<rparr> \<and>
   \<not> paused \<lparr>dx = 5, dy = 1, paused = False\<rparr> \<and>
   animate scenario_viewport scenario_layout
     (scenario_state\<lparr>images := (images scenario_state)[0 := \<lparr>style_left = Some 0, style_top = Some 10\<rparr>]\<rparr>)
     = animate scenario_viewport scenario_layout
         (scenario_state\<lparr>images := (images scenario_state)[0 := \<lparr>style_left = None, style_top = Some 10\<rparr>]\<rparr>) \<and>
   animate scenario_viewport scenario_layout
     (scenario_state\<lparr>images := (images scenario_state)[0 := \<lparr>style_left = None, style_top = Some 10\<rparr>]\<rparr>)
     = \<lparr>images = [\<lparr>style_left = Some 750, style_top = Some 11\<rparr>],
        velocities = [Some \<lparr>dx = -5, dy = 1, paused = False\<rparr>]\<rparr> \<and>
   clampAllPositionsToViewport scenario_viewport scenario_layout
     (scenario_state\<lparr>images := (images scenario_state)[0 := \<lparr>style_left = Some 0, style_top = Some 10\<rparr>]\<rparr>)
     = \<lparr>images = [\<lparr>style_left = Some 750, style_top = Some 10\<rparr>],
        velocities = [Some \<lparr>dx = 5, dy = 1, paused = False\<rparr>]\<rparr>"
  using zero_is_missing [of scenario_viewport scenario_layout scenario_state 0
      "\<lparr>style_left = Some 798, style_top = Some 10\<rparr>" "\<lparr>dx = 5, dy = 1, paused = False\<rparr>"]
  by (simp add: scenario_state_def scenario_viewport_def scenario_layout_def lookup_def
      animate_def animateImage_def bounce_def currentLeft_def currentTop_def or_num_def
      or_parsed_def clampAllPositionsToViewport_def clampImage_def clampWidth_def
      clampHeight_def clamp_def)

text \<open>
  C9: no body is ever stationary. With random draws in \<open>[0, 1)\<close>, every body starts with
  \<open>|dx|\<close> and \<open>|dy|\<close> at least the base speed (0.6, positive; 1 in \<open>script.js\<close>), and
  every handler keeps \<open>|dx|\<close> and \<open>|dy|\<close> of every body, so both stay nonzero in every
  state the page reaches.
\<close>

theorem never_stationary:
  assumes rnd: "\<forall>n. 0 \<le> rnd n \<and> rnd n < 1"
  shows "0 < baseSpeed \<and>
    (\<forall>k < length imgs. \<exists>v.
        lookup (velocities (run es (boot vp lay lay' rnd imgs))) k = Some v \<and>
        baseSpeed \<le> \<bar>dx v\<bar> \<and> baseSpeed \<le> \<bar>dy v\<bar> \<and> dx v \<noteq> 0 \<and> dy v \<noteq> 0) \<and>
    (\<forall>k < length imgs. \<exists>v.
        lookup (velocities (run_original es
          (initialize_original vp lay rnd \<lparr>images = imgs, velocities = []\<rparr>))) k = Some v \<and>
        1 \<le> \<bar>dx v\<bar> \<and> 1 \<le> \<bar>dy v\<bar> \<and> dx v \<noteq> 0 \<and> dy v \<noteq> 0) \<and>
    map speed (velocities (handle e st)) = map speed (velocities st) \<and>
    map speed (velocities (handle_original e st)) = map speed (velocities st)"
proof (intro conjI allI impI)
  show "0 < baseSpeed"
    by (simp add: baseSpeed_def)
next
  fix k assume k: "k < length imgs"
  let ?vs = "velocities (boot vp lay lay' rnd imgs)"
  have "map speed (velocities (run es (boot vp lay lay' rnd imgs))) = map speed ?vs"
    by (rule speeds_run)
  moreover have "k < length ?vs" and "?vs ! k = Some (initVelocity rnd k)"
    using k by (simp_all add: velocities_boot)
  ultimately obtain v where v: "lookup (velocities (run es (boot vp lay lay' rnd imgs))) k = Some v"
    and "\<bar>dx v\<bar> = \<bar>dx (initVelocity rnd k)\<bar>" and "\<bar>dy v\<bar> = \<bar>dy (initVelocity rnd k)\<bar>"
    using speeds_nth by blast
  moreover have "baseSpeed \<le> \<bar>dx (initVelocity rnd k)\<bar> \<and> baseSpeed \<le> \<bar>dy (initVelocity rnd k)\<bar>"
    using rnd by (simp add: initVelocity_bounds)
  moreover have "0 < baseSpeed"
    by (simp add: baseSpeed_def)
  ultimately have "baseSpeed \<le> \<bar>dx v\<bar> \<and> baseSpeed \<le> \<bar>dy v\<bar> \<and> dx v \<noteq> 0 \<and> dy v \<noteq> 0"
    by auto
  with v show "\<exists>v. lookup (velocities (run es (boot vp lay lay' rnd imgs))) k = Some v \<and>
      baseSpeed \<le> \<bar>dx v\<bar> \<and> baseSpeed \<le> \<bar>dy v\<bar> \<and> dx v \<noteq> 0 \<and> dy v \<noteq> 0"
    by blast
next
  fix k assume k: "k < length imgs"
  let ?st0 = "initialize_original vp lay rnd \<lparr>images = imgs, velocities = []\<rparr>"
  have "map speed (velocities (run_original es ?st0)) = map speed (velocities ?st0)"
    by (rule speeds_run_original)
  moreover have "k < length (velocities ?st0)"
    and "velocities ?st0 ! k = Some (initVelocity_original rnd k)"
    using k by (simp_all add: velocities_initialize_original)
  ultimately obtain v where v: "lookup (velocities (run_original es ?st0)) k = Some v"
    and "\<bar>dx v\<bar> = \<bar>dx (initVelocity_original rnd k)\<bar>"
    and "\<bar>dy v\<bar> = \<bar>dy (initVelocity_original rnd k)\<bar>"
    using speeds_nth by blast
  moreover have "1 \<le> \<bar>dx (initVelocity_original rnd k)\<bar> \<and> 1 \<le> \<bar>dy (initVelocity_original rnd k)\<bar>"
    using rnd by (simp add: initVelocity_original_bounds)
  ultimately have "1 \<le> \<bar>dx v\<bar> \<and> 1 \<le> \<bar>dy v\<bar> \<and> dx v \<noteq> 0 \<and> dy v \<noteq> 0"
    by auto
  with v show "\<exists>v. lookup (velocities (run_original es ?st0)) k = Some v \<and>
      1 \<le> \<bar>dx v\<bar> \<and> 1 \<le> \<bar>dy v\<bar> \<and> dx v \<noteq> 0 \<and> dy v \<noteq> 0"
    by blast
qed (simp_all add: speeds_handle speeds_handle_original)

theorem never_stationary_witness:
  "(\<forall>n. 0 \<le> fixed_rnd n \<and> fixed_rnd n < 1) \<and>
   0 < length unplaced \<and>
   lookup (velocities (run hover_then_frame
     (boot scenario_viewport scenario_layout scenario_layout fixed_rnd unplaced))) 0
     = Some \<lparr>dx = - (33 / 40), dy = - (33 / 40), paused = False\<rparr> \<and>
   (\<exists>v. lookup (velocities (run hover_then_frame
     (boot scenario_viewport scenario_layout scenario_layout fixed_rnd unplaced))) 0 = Some v \<and>
     dx v \<noteq> 0 \<and> dy v \<noteq> 0)"
  using never_stationary [of fixed_rnd unplaced hover_then_frame scenario_viewport
      scenario_layout scenario_layout]
  by (simp add: fixed_rnd_def unplaced_def hover_then_frame_def boot_def
      initializePositionsAndVelocities_def initImage_def initVelocity_def baseSpeed_def
      clampAllPositionsToViewport_def clampImage_def clampWidth_def clampHeight_def clamp_def
      currentLeft_def currentTop_def or_num_def or_parsed_def scenario_viewport_def
      scenario_layout_def mouseenter_def mouseleave_def lookup_def animate_def animateImage_def
      bounce_def)

text \<open>
  C10: in the clamping variant one update of an unpaused body writes back a position within
  \<open>[0, max(0, viewportWidth - width)] \<times> [0, max(0, viewportHeight - height)]\<close>, whatever
  the starting position and the velocity.
\<close>

theorem one_step_containment:
  assumes "k < length (images st)" and "lookup (velocities st) k = Some v" and "\<not> paused v"
  shows "contained vp (rect_width (lay k)) (rect_height (lay k)) (images (animate vp lay st) ! k)"
proof -
  from assms(1,2) have "images (animate vp lay st) ! k
      = fst (animateImage vp (lay k) (images st ! k) (Some v))"
    by (simp add: images_animate_nth)
  with assms(3) show ?thesis
    by (simp add: animateImage_contained)
qed

theorem one_step_containment_witness:
  "0 < length (images far_state) \<and>
   lookup (velocities far_state) 0 = Some \<lparr>dx = -5, dy = 1, paused = False\<rparr> \<and>
   \<not> paused \<lparr>dx = -5, dy = 1, paused = False\<rparr> \<and>
   contained scenario_viewport 50 50 (images (animate scenario_viewport scenario_layout far_state) ! 0) \<and>
   images (animate scenario_viewport scenario_layout far_state) ! 0
     = \<lparr>style_left = Some 0, style_top = Some 550\<rparr>"
  using one_step_containment [of 0 far_state "\<lparr>dx = -5, dy = 1, paused = False\<rparr>"
      scenario_viewport scenario_layout]
  by (simp add: far_state_def scenario_viewport_def scenario_layout_def lookup_def animate_def
      animateImage_def bounce_def currentLeft_def currentTop_def or_num_def or_parsed_def)

end
